theory Spec2Isabelle
  imports Main "HOL-Library.Sublist" "HOL-Library.List_Lexorder" "HOL-Library.Char_ord"
begin

section \<open>Values crossing the boundary of the program\<close>

text \<open>
  Go's \<open>error\<close> values. \<open>util.MissingOption\<close> and \<open>util.InvalidArg\<close> are helpers of
  package util whose bodies are not part of the sources at hand: each is kept as a
  constructor holding the arguments of the call. \<open>Errorf\<close> holds the format string and the
  arguments of \<open>fmt.Errorf\<close> or \<open>errors.New\<close>, \<open>Wrap\<close> those of \<open>errors.Wrap\<close> and
  \<open>errors.Wrapf\<close>. \<open>External\<close> is an error produced by a collaborator (the Kubernetes
  API, helm, git, the terminal).
\<close>

datatype error =
    MissingOption string
  | InvalidArg string "string list"
  | Errorf string "arg list"
  | Wrap error string "arg list"
  | External string
and arg = ArgS string | ArgE error

text \<open>The persisted kube configuration: \<open>api.Config\<close> and \<open>api.Context\<close> of client-go, with
  the fields the program reads. A Go map from names to pointers is an association list
  whose values may be nil (\<open>None\<close>).\<close>

record Context =
  Context_Cluster :: string
  Context_AuthInfo :: string
  Context_Namespace :: string

record Config =
  Contexts :: "(string \<times> Context option) list"
  CurrentContext :: string

text \<open>\<open>time.Duration\<close> counts nanoseconds.\<close>

type_synonym Duration = int

definition Second :: Duration where
  "Second = 1000000000"

definition Minute :: Duration where
  "Minute = 60 * Second"

text \<open>\<open>opts.InitHelmConfig\<close> and \<open>helm.InstallChartOptions\<close>, with the fields the program sets.\<close>

record InitHelmConfig =
  cfg_Namespace :: string
  cfg_OnlyHelmClient :: bool
  cfg_Helm3 :: bool
  cfg_SkipTiller :: bool
  cfg_GlobalTiller :: bool
  cfg_TillerNamespace :: string
  cfg_TillerRole :: string

record InstallChartOptions =
  Chart :: string
  ReleaseName :: string
  Version :: string
  Ns :: string
  SetValues :: "string list"
  ValueFiles :: "string list"
  HelmUpdate :: bool

text \<open>\<open>rbacv1.ClusterRoleBinding\<close>: the name, the one subject (api group, kind, name) and the
  role reference (api group, kind, name) the program fills in.\<close>

record ClusterRoleBinding =
  crb_Name :: string
  crb_Subjects :: "(string \<times> string \<times> string) list"
  crb_RoleRef :: "string \<times> string \<times> string"

datatype level = Debug | Info | Warn | Error | Fatal

text \<open>
  Every call that leaves the program is an event of the run, with the arguments of the
  call. A log event holds the level, the format string of the source and its arguments
  (the colouring by \<open>util.ColorInfo\<close> is left out).
\<close>

datatype event =
    EvLoadConfig
  | EvSurveySelect string "string list" string
  | EvModifyConfig Config
  | EvPrintf string "string list"
  | EvLog level string "arg list"
  | EvSleep Duration
  | EvGetCloudProvider string
  | EvGitUsername
  | EvGitEmail
  | EvPickValue string
  | EvGitSetUsername string
  | EvGitSetEmail string
  | EvKubeClient
  | EvGetClusterUserName
  | EvClusterRoleBindingGet string
  | EvClusterRoleBindingCreate ClusterRoleBinding
  | EvSurveyInput string string
  | EvSurveyConfirm string bool
  | EvGetKubeClusterID
  | EvGetClusterID
  | EvWaitForDeploymentToBeCreatedAndReady string string Duration
  | EvKubeClientAndNamespace
  | EvInitHelm InitHelmConfig
  | EvInitBuildPacks
  | EvEnsureNamespaceCreated string "(string \<times> string) list"
  | EvDeploymentPodCount string string
  | EvAppendMyValues "string list"
  | EvTempFile string string
  | EvWriteFile string string
  | EvGetVersionNumber string string string
  | EvHelmBinary
  | EvInstallChartWithOptions InstallChartOptions
  | EvWaitForDeploymentToBeReady string string Duration
  | EvWaitForExternalIP string string Duration
  | EvGetDomain string string string string string

text \<open>
  The outside world answers a call as a function of the history of the run, the call
  itself being the last event of that history: one answer function for each shape of
  result (\<open>error\<close>; \<open>(string, error)\<close>; \<open>([]string, error)\<close>; \<open>(int, error)\<close>;
  \<open>(bool, error)\<close>). A Go function returning \<open>(value, error)\<close> returns both, so an
  answer is a pair.

  The remaining fields are the constants and pure helpers of other packages of the
  repository that the two files use and that are not part of the sources at hand: the
  provider names of package cloud, \<open>opts.DefaultIngressServiceName\<close>,
  \<open>naming.ToValidName\<close>, \<open>util.UrlHostNameWithoutPort\<close>, \<open>kube.Server\<close>,
  \<open>kube.CurrentNamespace\<close> and \<open>kube.CurrentServer\<close>; and \<open>strings.ToLower\<close> of the Go
  library.
\<close>

record env =
  reply_err :: "event list \<Rightarrow> error option"
  reply_string :: "event list \<Rightarrow> string \<times> error option"
  reply_strings :: "event list \<Rightarrow> string list \<times> error option"
  reply_int :: "event list \<Rightarrow> int \<times> error option"
  reply_bool :: "event list \<Rightarrow> bool \<times> error option"
  cloud_OPENSHIFT :: string
  cloud_ALIBABA :: string
  cloud_AWS :: string
  cloud_EKS :: string
  cloud_OKE :: string
  cloud_GKE :: string
  cloud_ICP :: string
  cloud_IKS :: string
  DefaultIngressServiceName :: string
  naming_ToValidName :: "string \<Rightarrow> string"
  strings_ToLower :: "string \<Rightarrow> string"
  util_UrlHostNameWithoutPort :: "string \<Rightarrow> string \<times> error option"
  kube_Server :: "Config \<Rightarrow> Context \<Rightarrow> string"
  kube_CurrentNamespace :: "Config \<Rightarrow> string"
  kube_CurrentServer :: "Config \<Rightarrow> string"

section \<open>The receivers\<close>

text \<open>
  The state a method works on: the history of the run so far and the kube configuration
  file on disk (\<open>None\<close>: no configuration), extended by the fields of the receiver.
  \<open>CommonOptions\<close> is embedded in both option structs; it is declared in another package, and
  the record has the fields the two files use.
\<close>

record world =
  trace :: "event list"
  kubeconfig :: "Config option"

record CommonOptions = world +
  Args :: "string list"
  BatchMode :: bool
  AdvancedMode :: bool
  Username :: string
  CommonDomain :: string

record ContextOptions = CommonOptions +
  Filter :: string

record InitFlags =
  Domain :: string
  Provider :: string
  Namespace :: string
  UserClusterRole :: string
  TillerClusterRole :: string
  IngressClusterRole :: string
  TillerNamespace :: string
  IngressNamespace :: string
  IngressService :: string
  IngressDeployment :: string
  ExternalIP :: string
  VersionsRepository :: string
  VersionsGitRef :: string
  DraftClient :: bool
  HelmClient :: bool
  Helm3 :: bool
  HelmBin :: string
  RecreateExistingDraftRepos :: bool
  NoTiller :: bool
  RemoteTiller :: bool
  GlobalTiller :: bool
  SkipIngress :: bool
  SkipTiller :: bool
  SkipClusterRole :: bool
  OnPremise :: bool
  Http :: bool
  NoGitValidate :: bool
  ExternalDNS :: bool

record InitOptions = CommonOptions +
  Flags :: InitFlags

definition optionUsername :: string where
  "optionUsername = ''username''"

definition optionNamespace :: string where
  "optionNamespace = ''namespace''"

definition optionTillerNamespace :: string where
  "optionTillerNamespace = ''tiller-namespace''"

section \<open>Calls to the outside\<close>

text \<open>A call appends its event to the history and takes the answer of the world there.\<close>

definition emit :: "event \<Rightarrow> 'a world_scheme \<Rightarrow> 'a world_scheme" where
  "emit ev s = s\<lparr>trace := trace s @ [ev]\<rparr>"

definition call_err :: "env \<Rightarrow> event \<Rightarrow> 'a world_scheme \<Rightarrow> error option \<times> 'a world_scheme" where
  "call_err env ev s = (reply_err env (trace s @ [ev]), emit ev s)"

definition call_string ::
  "env \<Rightarrow> event \<Rightarrow> 'a world_scheme \<Rightarrow> (string \<times> error option) \<times> 'a world_scheme" where
  "call_string env ev s = (reply_string env (trace s @ [ev]), emit ev s)"

definition call_strings ::
  "env \<Rightarrow> event \<Rightarrow> 'a world_scheme \<Rightarrow> (string list \<times> error option) \<times> 'a world_scheme" where
  "call_strings env ev s = (reply_strings env (trace s @ [ev]), emit ev s)"

definition call_int ::
  "env \<Rightarrow> event \<Rightarrow> 'a world_scheme \<Rightarrow> (int \<times> error option) \<times> 'a world_scheme" where
  "call_int env ev s = (reply_int env (trace s @ [ev]), emit ev s)"

definition call_bool ::
  "env \<Rightarrow> event \<Rightarrow> 'a world_scheme \<Rightarrow> (bool \<times> error option) \<times> 'a world_scheme" where
  "call_bool env ev s = (reply_bool env (trace s @ [ev]), emit ev s)"

section \<open>init: checkOptions\<close>

text \<open>
  \<open>checkOptions\<close>, in two parts: the helm3 block that opens it, and the rest. The receiver
  is a pointer, so the assignments made before an error is returned stay.
\<close>

definition checkOptions_helm3 :: "InitFlags \<Rightarrow> InitFlags" where
  "checkOptions_helm3 f = (if Helm3 f then f\<lparr>SkipTiller := True, NoTiller := True\<rparr> else f)"

definition checkOptions_ingress :: "'a InitOptions_scheme \<Rightarrow> 'a InitOptions_scheme" where
  "checkOptions_ingress s =
     (if SkipIngress (Flags s) \<and> ExternalIP (Flags s) = ''''
      then emit (EvLog Warn ''Expecting ingress controller to be installed in %s''
                   [ArgS (IngressNamespace (Flags s) @ ''/'' @ IngressDeployment (Flags s))]) s
      else s)"

definition checkOptions ::
  "env \<Rightarrow> 'a InitOptions_scheme \<Rightarrow> error option \<times> 'a InitOptions_scheme" where
  "checkOptions env s0 =
     (let s = s0\<lparr>Flags := checkOptions_helm3 (Flags s0)\<rparr> in
      if \<not> SkipTiller (Flags s) then
        (let tillerNamespace = TillerNamespace (Flags s) in
         if GlobalTiller (Flags s) then
           (if tillerNamespace = '''' then (Some (MissingOption optionTillerNamespace), s)
            else (None, checkOptions_ingress s))
         else
           (let ns = Namespace (Flags s) in
            if ns = '''' then
              (case call_string env EvKubeClientAndNamespace s of
                 ((curNs, Some err), s1) \<Rightarrow> (Some err, s1)
               | ((curNs, None), s1) \<Rightarrow>
                   if curNs = '''' then (Some (MissingOption optionNamespace), s1)
                   else (None, checkOptions_ingress (s1\<lparr>Flags := (Flags s1)\<lparr>Namespace := curNs\<rparr>\<rparr>)))
            else (None, checkOptions_ingress (s\<lparr>Flags := (Flags s)\<lparr>Namespace := ns\<rparr>\<rparr>))))
      else (None, checkOptions_ingress s))"

section \<open>init: the cluster-admin role\<close>

definition nl :: string where
  "nl = [CHR 0x0A]"

definition dq :: string where
  "dq = [CHR 0x22]"

text \<open>
  Modelled from the spec: \<open>CommonOptions.Retry\<close>, a method of another package of the
  repository whose body is not part of the sources at hand. Section 4.1 of the
  specification: it invokes the operation up to \<open>maxAttempts\<close> times, sleeping \<open>delay\<close>
  between failures, and returns the first success or the last observed error after
  exhaustion; each failed attempt is reported. The operation is invoked once before the
  count is looked at, since there is nothing to return otherwise.
\<close>

fun Retry ::
  "nat \<Rightarrow> Duration \<Rightarrow> ('a world_scheme \<Rightarrow> error option \<times> 'a world_scheme)
     \<Rightarrow> 'a world_scheme \<Rightarrow> error option \<times> 'a world_scheme" where
  "Retry attempts delay call s =
     (case call s of
        (None, s1) \<Rightarrow> (None, s1)
      | (Some err, s1) \<Rightarrow>
          (let s2 = emit (EvLog Warn ''retrying after error:%s'' [ArgE err]) s1 in
           if attempts \<le> 1 then (Some err, s2)
           else Retry (attempts - 1) delay call (emit (EvSleep delay) s2)))"

declare Retry.simps [simp del]

text \<open>The function literal passed to \<open>Retry\<close> in \<open>EnableClusterAdminRole\<close>: get, and create
  when the get fails.\<close>

definition EnableClusterAdminRole_call ::
  "env \<Rightarrow> string \<Rightarrow> ClusterRoleBinding \<Rightarrow> 'a InitOptions_scheme
     \<Rightarrow> error option \<times> 'a InitOptions_scheme" where
  "EnableClusterAdminRole_call env clusterRoleBindingName clusterRoleBinding s =
     (case call_err env (EvClusterRoleBindingGet clusterRoleBindingName) s of
        (None, s1) \<Rightarrow> (None, s1)
      | (Some err, s1) \<Rightarrow>
          (let s2 = emit (EvLog Debug
                      (''Trying to create ClusterRoleBinding %s for role: %s for user %s'' @ nl @ '' %v'')
                      [ArgS clusterRoleBindingName, ArgS (UserClusterRole (Flags s1)),
                       ArgS (Username s1), ArgE err]) s1 in
           case call_err env (EvClusterRoleBindingCreate clusterRoleBinding) s2 of
             (None, s3) \<Rightarrow>
               (None, emit (EvLog Debug ''Created ClusterRoleBinding %s''
                              [ArgS clusterRoleBindingName]) s3)
           | (Some err2, s3) \<Rightarrow> (Some err2, s3)))"

text \<open>The user name is asked of the cluster when the option is empty; the assignment to
  \<open>o.Username\<close> is made before the error is looked at.\<close>

definition EnableClusterAdminRole_username ::
  "env \<Rightarrow> 'a InitOptions_scheme \<Rightarrow> error option \<times> 'a InitOptions_scheme" where
  "EnableClusterAdminRole_username env s =
     (if Username s = '''' then
        (case call_string env EvGetClusterUserName s of
           ((name, err), s1) \<Rightarrow> (err, s1\<lparr>Username := name\<rparr>))
      else (None, s))"

definition clusterRoleBindingName :: "env \<Rightarrow> 'a InitOptions_scheme \<Rightarrow> string" where
  "clusterRoleBindingName env s =
     (let userFormatted = naming_ToValidName env (Username s) in
      naming_ToValidName env (userFormatted @ ''-'' @ UserClusterRole (Flags s) @ ''-binding''))"

definition clusterRoleBinding :: "env \<Rightarrow> 'a InitOptions_scheme \<Rightarrow> ClusterRoleBinding" where
  "clusterRoleBinding env s =
     \<lparr> crb_Name = clusterRoleBindingName env s,
       crb_Subjects = [(''rbac.authorization.k8s.io'', ''User'', Username s)],
       crb_RoleRef = (''rbac.authorization.k8s.io'', ''ClusterRole'', UserClusterRole (Flags s)) \<rparr>"

definition EnableClusterAdminRole ::
  "env \<Rightarrow> 'a InitOptions_scheme \<Rightarrow> error option \<times> 'a InitOptions_scheme" where
  "EnableClusterAdminRole env s =
     (if SkipClusterRole (Flags s) then (None, s)
      else
        case call_err env EvKubeClient s of
          (Some err, s1) \<Rightarrow> (Some err, s1)
        | (None, s1) \<Rightarrow>
            (case EnableClusterAdminRole_username env s1 of
               (Some err, s2) \<Rightarrow> (Some err, s2)
             | (None, s2) \<Rightarrow>
                 if Username s2 = '''' then (Some (MissingOption optionUsername), s2)
                 else
                   Retry 3 (10 * Second)
                     (EnableClusterAdminRole_call env (clusterRoleBindingName env s2)
                        (clusterRoleBinding env s2))
                     s2))"

section \<open>init: git, external DNS, ICP and IKS\<close>

text \<open>\<open>util.PickValue\<close> is asked only outside batch mode.\<close>

definition ValidateGit_pick ::
  "env \<Rightarrow> string \<Rightarrow> string \<Rightarrow> 'a InitOptions_scheme
     \<Rightarrow> (string \<times> error option) \<times> 'a InitOptions_scheme" where
  "ValidateGit_pick env message value s =
     (if \<not> BatchMode s then call_string env (EvPickValue message) s else ((value, None), s))"

definition ValidateGit_userName ::
  "env \<Rightarrow> string \<Rightarrow> 'a InitOptions_scheme \<Rightarrow> (error + string) \<times> 'a InitOptions_scheme" where
  "ValidateGit_userName env userName0 s =
     (if userName0 = '''' then
        (case ValidateGit_pick env ''Please enter the name you wish to use with git: '' userName0 s of
           ((userName, Some err), s1) \<Rightarrow> (Inl err, s1)
         | ((userName, None), s1) \<Rightarrow>
             if userName = '''' then
               (Inl (Errorf (''No Git user.name is defined. Please run the command: git config --global --add user.name ''
                               @ dq @ ''MyName'' @ dq) []), s1)
             else
               (case call_err env (EvGitSetUsername userName) s1 of
                  (Some err, s2) \<Rightarrow> (Inl err, s2)
                | (None, s2) \<Rightarrow> (Inr userName, s2)))
      else (Inr userName0, s))"

definition ValidateGit_userEmail ::
  "env \<Rightarrow> string \<Rightarrow> 'a InitOptions_scheme \<Rightarrow> (error + string) \<times> 'a InitOptions_scheme" where
  "ValidateGit_userEmail env userEmail0 s =
     (if userEmail0 = '''' then
        (case ValidateGit_pick env ''Please enter the email address you wish to use with git: '' userEmail0 s of
           ((userEmail, Some err), s1) \<Rightarrow> (Inl err, s1)
         | ((userEmail, None), s1) \<Rightarrow>
             if userEmail = '''' then
               (Inl (Errorf (''No Git user.email is defined. Please run the command: git config --global --add user.email ''
                               @ dq @ ''me@acme.com'' @ dq) []), s1)
             else
               (case call_err env (EvGitSetEmail userEmail) s1 of
                  (Some err, s2) \<Rightarrow> (Inl err, s2)
                | (None, s2) \<Rightarrow> (Inr userEmail, s2)))
      else (Inr userEmail0, s))"

text \<open>The errors of \<open>o.Git().Username\<close> and \<open>o.Git().Email\<close> are ignored.\<close>

definition ValidateGit ::
  "env \<Rightarrow> 'a InitOptions_scheme \<Rightarrow> error option \<times> 'a InitOptions_scheme" where
  "ValidateGit env s =
     (case call_string env EvGitUsername s of ((userName0, _), s1) \<Rightarrow>
      case call_string env EvGitEmail s1 of ((userEmail0, _), s2) \<Rightarrow>
      case ValidateGit_userName env userName0 s2 of
        (Inl err, s3) \<Rightarrow> (Some err, s3)
      | (Inr userName, s3) \<Rightarrow>
      case ValidateGit_userEmail env userEmail0 s3 of
        (Inl err, s4) \<Rightarrow> (Some err, s4)
      | (Inr userEmail, s4) \<Rightarrow>
          (None, emit (EvLog Info ''Git configured for user: %s and email %s''
                         [ArgS userName, ArgS userEmail]) s4))"

text \<open>The error of \<open>survey.AskOne\<close> is ignored by the next two functions; the answer is what
  the prompt left in the variable.\<close>

definition configureOptionsForExternalDNS ::
  "env \<Rightarrow> 'a InitOptions_scheme \<Rightarrow> 'a InitOptions_scheme" where
  "configureOptionsForExternalDNS env s =
     (if \<not> BatchMode s then
        (case call_string env
                (EvSurveyInput ''Provide the domain Jenkins X should be available at:'' '''') s of
           ((ExternalDNSDomain, _), s1) \<Rightarrow> s1\<lparr>Flags := (Flags s1)\<lparr>Domain := ExternalDNSDomain\<rparr>\<rparr>)
      else s)"

definition configureForICP_notes :: "event list" where
  "configureForICP_notes =
     [EvLog Info '''' [],
      EvLog Info ''IBM Cloud Private installation of Jenkins X'' [],
      EvLog Info (''Configuring Jenkins X options for IBM Cloud Private: ensure your Kubernetes context is already ''
                  @ ''configured to point to the cluster jx will be installed into.'') [],
      EvLog Info '''' [],
      EvLog Info ''Permitting image repositories to be used'' [],
      EvLog Info (''If you have a clusterimagepolicy, ensure that this policy permits pulling from the following additional repositories: ''
                  @ ''the scope of which can be narrowed down once you are sure only images from certain repositories are being used:'') [],
      EvLog Info (''- name: docker.io/* '' @ nl @ ''- name: gcr.io/* '' @ nl @ ''- name: quay.io/* '' @ nl
                  @ ''- name: k8s.gcr.io/* '' @ nl @ ''- name: <your ICP cluster name>:8500/* '') [],
      EvLog Info ''IBM Cloud Private defaults'' [],
      EvLog Info (''By default, with IBM Cloud Private the Tiller namespace for jx will be '' @ dq @ ''default'' @ dq
                  @ '' and the namespace where Jenkins X resources will be installed into is '' @ dq @ ''jx'' @ dq @ ''.'') [],
      EvLog Info '''' [],
      EvLog Info ''Using the IBM Cloud Private Docker registry'' [],
      EvLog Info (''To use the IBM Cloud Private Docker registry, when environments (namespaces) are created, ''
                  @ ''create a Docker registry secret and patch the default service account in the created namespace to use the secret, adding it as an ImagePullSecret. ''
                  @ ''This is required so that pods in the created namespace can pull images from the registry.'') [],
      EvLog Info '''' []]"

definition configureForICP ::
  "env \<Rightarrow> 'a InitOptions_scheme \<Rightarrow> 'a InitOptions_scheme" where
  "configureForICP env s0 =
     (let s = s0\<lparr>trace := trace s0 @ configureForICP_notes\<rparr>;
          s1 = s\<lparr>Flags := (Flags s)\<lparr>IngressNamespace := ''kube-system'',
                                      IngressDeployment := ''default-backend'',
                                      IngressService := ''default-backend'',
                                      TillerNamespace := ''default'',
                                      Namespace := ''jx''\<rparr>\<rparr>
      in
      if \<not> BatchMode s1 then
        (if ExternalIP (Flags s1) \<noteq> '''' then
           emit (EvLog Info ''An external IP has already been specified: otherwise you will be prompted for one to use'' []) s1
         else
           (case call_string env
                   (EvSurveyInput ''Provide the external IP Jenkins X should use: typically your IBM Cloud Private proxy node IP address'' '''') s1 of
              ((ICPExternalIP, _), s2) \<Rightarrow>
                (let s3 = s2\<lparr>Flags := (Flags s2)\<lparr>ExternalIP := ICPExternalIP\<rparr>\<rparr> in
                 case call_string env
                        (EvSurveyInput ''Provide the domain Jenkins X should be available at: typically your IBM Cloud Private proxy node IP address but with a domain added to the end''
                           (ICPExternalIP @ ''.nip.io'')) s3 of
                   ((ICPDomain, _), s4) \<Rightarrow> s4\<lparr>Flags := (Flags s4)\<lparr>Domain := ICPDomain\<rparr>\<rparr>)))
      else s1)"

text \<open>The cluster id: from the cluster, or from the provider when that fails or gives
  nothing.\<close>

definition initIKSIngress_clusterID ::
  "env \<Rightarrow> 'a InitOptions_scheme \<Rightarrow> (string \<times> error option) \<times> 'a InitOptions_scheme" where
  "initIKSIngress_clusterID env s =
     (case call_string env EvGetKubeClusterID s of
        ((clusterID, err), s1) \<Rightarrow>
          if err \<noteq> None \<or> clusterID = '''' then call_string env EvGetClusterID s1
          else ((clusterID, err), s1))"

definition initIKSIngress ::
  "env \<Rightarrow> 'a InitOptions_scheme \<Rightarrow> error option \<times> 'a InitOptions_scheme" where
  "initIKSIngress env s0 =
     (let s = emit (EvLog Info ''Wait for Ingress controller to be injected into IBM Kubernetes Service Cluster'' []) s0 in
      case call_err env EvKubeClient s of
        (Some err, s1) \<Rightarrow> (Some err, s1)
      | (None, s1) \<Rightarrow>
          (let ingressNamespace = IngressNamespace (Flags s1) in
           case initIKSIngress_clusterID env s1 of
             ((clusterID, Some err), s3) \<Rightarrow> (Some err, s3)
           | ((clusterID, None), s3) \<Rightarrow>
               (let s4 = s3\<lparr>Flags := (Flags s3)
                            \<lparr>IngressDeployment := ''public-cr'' @ strings_ToLower env clusterID @ ''-alb1'',
                             IngressService := ''public-cr'' @ strings_ToLower env clusterID @ ''-alb1''\<rparr>\<rparr>
                in call_err env
                     (EvWaitForDeploymentToBeCreatedAndReady (IngressDeployment (Flags s4))
                        ingressNamespace (30 * Minute)) s4)))"

section \<open>init: InitIngress\<close>

definition isOpenShiftProvider :: "env \<Rightarrow> string \<Rightarrow> bool" where
  "isOpenShiftProvider env provider = (if provider = cloud_OPENSHIFT env then True else False)"

text \<open>
  \<open>InitIngress\<close> is one function in the source. Its parts are named here in the order of the
  source; a part that can end the function returns \<open>Return r\<close> (the function returns \<open>r\<close>,
  \<open>None\<close> being nil) or \<open>Proceed\<close> (the function goes on with the next statement).
\<close>

datatype flow = Return "error option" | Proceed

text \<open>\<open>kube.LoadConfig\<close> and \<open>o.Kube().LoadConfig()\<close> read the kube configuration file;
  \<open>clientcmd.ModifyConfig\<close> writes it when it succeeds.\<close>

definition LoadConfig ::
  "env \<Rightarrow> 'a world_scheme \<Rightarrow> (Config option \<times> error option) \<times> 'a world_scheme" where
  "LoadConfig env s = (case call_err env EvLoadConfig s of (err, s1) \<Rightarrow> ((kubeconfig s1, err), s1))"

definition ModifyConfig ::
  "env \<Rightarrow> Config \<Rightarrow> 'a world_scheme \<Rightarrow> error option \<times> 'a world_scheme" where
  "ModifyConfig env newConfig s =
     (case call_err env (EvModifyConfig newConfig) s of
        (Some err, s1) \<Rightarrow> (Some err, s1)
      | (None, s1) \<Rightarrow> (None, s1\<lparr>kubeconfig := Some newConfig\<rparr>))"

text \<open>The Alibaba renaming of the default deployment and service names.\<close>

definition InitIngress_alibaba :: "env \<Rightarrow> 'a InitOptions_scheme \<Rightarrow> 'a InitOptions_scheme" where
  "InitIngress_alibaba env s =
     (if Provider (Flags s) = cloud_ALIBABA env then
        (let s1 = (if IngressDeployment (Flags s) = DefaultIngressServiceName env
                   then s\<lparr>Flags := (Flags s)\<lparr>IngressDeployment := ''nginx-ingress-controller''\<rparr>\<rparr>
                   else s)
         in if IngressService (Flags s1) = DefaultIngressServiceName env
            then s1\<lparr>Flags := (Flags s1)\<lparr>IngressService := ''nginx-ingress-lb''\<rparr>\<rparr>
            else s1)
      else s)"

text \<open>The install loop: the counter \<open>i\<close> starts at 0; a failed install with \<open>i \<ge> 3\<close> logs
  the error and leaves the loop, any other failed install adds one to \<open>i\<close> and sleeps a
  second; a successful install leaves the loop.\<close>

function InitIngress_installLoop ::
  "env \<Rightarrow> InstallChartOptions \<Rightarrow> int \<Rightarrow> 'a InitOptions_scheme \<Rightarrow> 'a InitOptions_scheme" where
  "InitIngress_installLoop env helmOptions i s =
     (case call_string env EvHelmBinary s of ((helmBinary, _), s0) \<Rightarrow>
      let s1 = emit (EvLog Debug ''Installing using helm binary: %s'' [ArgS helmBinary]) s0 in
      case call_err env (EvInstallChartWithOptions helmOptions) s1 of
        (Some err, s2) \<Rightarrow>
          if i \<ge> 3 then emit (EvLog Error ''Failed to install ingress chart: %s'' [ArgE err]) s2
          else InitIngress_installLoop env helmOptions (i + 1) (emit (EvSleep Second) s2)
      | (None, s2) \<Rightarrow> s2)"
  by pat_completeness auto
termination
  by (relation "measure (\<lambda>(env, helmOptions, i, s). nat (3 - i))") auto

declare InitIngress_installLoop.simps [simp del]

text \<open>Lines 669 to 696: the install loop, then the wait for the deployment.\<close>

definition InitIngress_installChart ::
  "env \<Rightarrow> InstallChartOptions \<Rightarrow> string \<Rightarrow> 'a InitOptions_scheme
     \<Rightarrow> flow \<times> 'a InitOptions_scheme" where
  "InitIngress_installChart env helmOptions ingressNamespace s =
     (let s1 = InitIngress_installLoop env helmOptions 0 s in
      case call_err env
             (EvWaitForDeploymentToBeReady (IngressDeployment (Flags s1)) ingressNamespace
                (10 * Minute)) s1 of
        (Some err, s2) \<Rightarrow> (Return (Some err), s2)
      | (None, s2) \<Rightarrow> (Proceed, s2))"

definition ingressValuesYaml :: string where
  "ingressValuesYaml =
     ''---'' @ nl @ ''rbac:'' @ nl @ '' create: true'' @ nl @ nl @ ''controller:'' @ nl
     @ '' service:'' @ nl @ ''   annotations:'' @ nl
     @ ''     service.beta.kubernetes.io/aws-load-balancer-type: nlb'' @ nl
     @ ''   enableHttp: true'' @ nl @ ''   enableHttps: true'' @ nl"

text \<open>Lines 609 to 625: whether to install. In batch mode, yes; in advanced mode the
  operator is asked; otherwise yes, with a notice.\<close>

definition InitIngress_confirm ::
  "env \<Rightarrow> string \<Rightarrow> 'a InitOptions_scheme \<Rightarrow> (bool \<times> error option) \<times> 'a InitOptions_scheme" where
  "InitIngress_confirm env ingressNamespace s =
     (if BatchMode s then ((True, None), s)
      else if AdvancedMode s then
        call_bool env
          (EvSurveyConfirm (''No existing ingress controller found in the '' @ ingressNamespace
                              @ '' namespace, shall we install one?'') True) s
      else ((True, None),
            emit (EvLog Info ''No existing ingress controller found in the %s namespace, installing one''
                    [ArgS ingressNamespace]) s))"

text \<open>Lines 637 to 661: on AWS and EKS a values file is written and added. The file
  permissions passed to \<open>ioutil.WriteFile\<close> (\<open>util.DefaultWritePermissions\<close>) are a constant
  of another package and are left out of the event.\<close>

definition InitIngress_valuesFile ::
  "env \<Rightarrow> string list \<Rightarrow> 'a InitOptions_scheme \<Rightarrow> (error + string list) \<times> 'a InitOptions_scheme" where
  "InitIngress_valuesFile env valuesFiles s =
     (if Provider (Flags s) = cloud_AWS env \<or> Provider (Flags s) = cloud_EKS env then
        (case call_string env (EvTempFile '''' ''ing-values-'') s of
           ((fileName, Some err), s1) \<Rightarrow> (Inl err, s1)
         | ((fileName, None), s1) \<Rightarrow>
             (case call_err env (EvWriteFile fileName ingressValuesYaml) s1 of
                (Some err, s2) \<Rightarrow> (Inl err, s2)
              | (None, s2) \<Rightarrow>
                  (Inr (valuesFiles @ [fileName]),
                   emit (EvLog Info ''Using helm values file: %s'' [ArgS fileName]) s2)))
      else (Inr valuesFiles, s))"

text \<open>The body of \<open>if podCount == 0\<close>. The kind passed to \<open>GetVersionNumber\<close>
  (\<open>versionstream.KindChart\<close>) is a constant of another package and is left out of the
  event.\<close>

definition InitIngress_install ::
  "env \<Rightarrow> string \<Rightarrow> 'a InitOptions_scheme \<Rightarrow> flow \<times> 'a InitOptions_scheme" where
  "InitIngress_install env ingressNamespace s =
     (case InitIngress_confirm env ingressNamespace s of
        ((installIngressController, Some err), s1) \<Rightarrow> (Return (Some err), s1)
      | ((installIngressController, None), s1) \<Rightarrow>
          if \<not> installIngressController then (Return None, s1)
          else
            (let values = [''rbac.create=true'',
                           ''controller.extraArgs.publish-service='' @ ingressNamespace @ ''/''
                             @ DefaultIngressServiceName env] in
             case call_strings env (EvAppendMyValues []) s1 of
               ((valuesFiles0, Some err), s2) \<Rightarrow>
                 (Return (Some (Wrap err ''failed to append the myvalues file'' [])), s2)
             | ((valuesFiles0, None), s2) \<Rightarrow>
                 (case InitIngress_valuesFile env valuesFiles0 s2 of
                    (Inl err, s3) \<Rightarrow> (Return (Some err), s3)
                  | (Inr valuesFiles, s3) \<Rightarrow>
                      (let chartName = ''stable/nginx-ingress'' in
                       case call_string env
                              (EvGetVersionNumber chartName (VersionsRepository (Flags s3))
                                 (VersionsGitRef (Flags s3))) s3 of
                         ((version, Some err), s4) \<Rightarrow>
                           (Return (Some (Wrap err ''failed to load version of chart %s'' [ArgS chartName])), s4)
                       | ((version, None), s4) \<Rightarrow>
                           InitIngress_installChart env
                             \<lparr> Chart = chartName, ReleaseName = ''jxing'', Version = version,
                               Ns = ingressNamespace, SetValues = values, ValueFiles = valuesFiles,
                               HelmUpdate = True \<rparr>
                             ingressNamespace s4))))"

text \<open>The on-premise branch: the external IP is the host of the Kubernetes master.\<close>

definition InitIngress_onPremise ::
  "env \<Rightarrow> string \<Rightarrow> 'a InitOptions_scheme \<Rightarrow> (error + string) \<times> 'a InitOptions_scheme" where
  "InitIngress_onPremise env externalIP s =
     (case LoadConfig env s of
        ((config, Some err), s1) \<Rightarrow> (Inl err, s1)
      | ((None, None), s1) \<Rightarrow> (Inl (Errorf ''empty kubernetes config'' []), s1)
      | ((Some config, None), s1) \<Rightarrow>
          (let host = kube_CurrentServer env config in
           if host = '''' then
             (Inr externalIP,
              emit (EvLog Warn ''No API server host is defined in the local kube config!'' []) s1)
           else
             (case util_UrlHostNameWithoutPort env host of
                (ip, Some err) \<Rightarrow>
                  (Inl (Errorf (''Could not parse Kubernetes master URI: %s as got: %s'' @ nl
                                  @ ''Try specifying the external IP address directly via: --external-ip'')
                          [ArgS host, ArgE err]), s1)
              | (ip, None) \<Rightarrow> (Inr ip, s1))))"

text \<open>Lines 703 to 711: the notes on quotas and the notice of the wait.\<close>

definition InitIngress_notes :: "env \<Rightarrow> string \<Rightarrow> 'a InitOptions_scheme \<Rightarrow> 'a InitOptions_scheme" where
  "InitIngress_notes env ingressNamespace s =
     (let s1 = (if Provider (Flags s) = cloud_OKE env
                then emit (EvLog Info ''Note: this loadbalancer will fail to be provisioned if you have insufficient quotas, this can happen easily on a OCI free account'' []) s
                else s);
          s2 = (if Provider (Flags s1) = cloud_GKE env
                then emit (EvLog Info (''Note: this loadbalancer will fail to be provisioned if you have insufficient quotas, this can happen easily on a GKE free account.''
                                        @ nl @ ''To view quotas run: %s'')
                             [ArgS ''gcloud compute project-info describe'']) s1
                else s1)
      in emit (EvLog Info ''Waiting for external loadbalancer to be created and update the nginx-ingress-controller service in %s namespace''
                 [ArgS ingressNamespace]) s2)"

text \<open>Lines 713 to 732: the external IP is the one of the flags, or the host of the master
  when that is empty and the cluster is on premise.\<close>

definition InitIngress_masterIP ::
  "env \<Rightarrow> 'a InitOptions_scheme \<Rightarrow> (error + string) \<times> 'a InitOptions_scheme" where
  "InitIngress_masterIP env s =
     (let externalIP = ExternalIP (Flags s) in
      if externalIP = '''' \<and> OnPremise (Flags s) then InitIngress_onPremise env externalIP s
      else (Inr externalIP, s))"

text \<open>Lines 734 to 742: the wait for the external IP of the ingress service, when there is
  no external IP yet.\<close>

definition InitIngress_waitForExternalIP ::
  "env \<Rightarrow> string \<Rightarrow> string \<Rightarrow> 'a InitOptions_scheme \<Rightarrow> error option \<times> 'a InitOptions_scheme" where
  "InitIngress_waitForExternalIP env ingressNamespace externalIP s =
     (if externalIP = '''' then
        (case call_err env
                (EvWaitForExternalIP (IngressService (Flags s)) ingressNamespace (10 * Minute)) s of
           (Some err, s1) \<Rightarrow> (Some err, s1)
         | (None, s1) \<Rightarrow> (None, emit (EvLog Info ''External loadbalancer created'' []) s1))
      else (None, emit (EvLog Info ''Using external IP: %s'' [ArgS externalIP]) s))"

text \<open>The body of \<open>if o.Flags.Provider != cloud.OPENSHIFT\<close>. Both domain fields are assigned
  before the error of \<open>GetDomain\<close> is looked at.\<close>

definition InitIngress_domain ::
  "env \<Rightarrow> string \<Rightarrow> 'a InitOptions_scheme \<Rightarrow> error option \<times> 'a InitOptions_scheme" where
  "InitIngress_domain env ingressNamespace s =
     (case InitIngress_masterIP env (InitIngress_notes env ingressNamespace s) of
        (Inl err, s1) \<Rightarrow> (Some err, s1)
      | (Inr externalIP, s1) \<Rightarrow>
          (case InitIngress_waitForExternalIP env ingressNamespace externalIP s1 of
             (Some err, s2) \<Rightarrow> (Some err, s2)
           | (None, s2) \<Rightarrow>
               (case call_string env
                       (EvGetDomain (Domain (Flags s2)) (Provider (Flags s2)) ingressNamespace
                          (IngressService (Flags s2)) externalIP) s2 of
                  ((domain, err), s3) \<Rightarrow>
                    (err, s3\<lparr>Flags := (Flags s3)\<lparr>Domain := domain\<rparr>, CommonDomain := domain\<rparr>))))"

text \<open>Lines 702 to 753: the external IP and the domain, then the closing notice.\<close>

definition InitIngress_externalIP ::
  "env \<Rightarrow> string \<Rightarrow> 'a InitOptions_scheme \<Rightarrow> error option \<times> 'a InitOptions_scheme" where
  "InitIngress_externalIP env ingressNamespace s =
     (if Provider (Flags s) \<noteq> cloud_OPENSHIFT env then
        (case InitIngress_domain env ingressNamespace s of
           (Some err, s1) \<Rightarrow> (Some err, s1)
         | (None, s1) \<Rightarrow>
             (None, emit (EvLog Info ''nginx ingress controller installed and configured'' []) s1))
      else (None, emit (EvLog Info ''nginx ingress controller installed and configured'' []) s))"

text \<open>Lines 598 to 700: the Alibaba names, the pod count of the ingress deployment, and
  the install when the count is zero. The error of \<open>kube.DeploymentPodCount\<close> is assigned
  to \<open>err\<close> and not looked at.\<close>

definition InitIngress_controller ::
  "env \<Rightarrow> string \<Rightarrow> 'a InitOptions_scheme \<Rightarrow> flow \<times> 'a InitOptions_scheme" where
  "InitIngress_controller env ingressNamespace s =
     (let s3 = InitIngress_alibaba env s in
      case call_int env
             (EvDeploymentPodCount (IngressDeployment (Flags s3)) ingressNamespace) s3 of
        ((podCount, err), s4) \<Rightarrow>
          if podCount = 0 then InitIngress_install env ingressNamespace s4
          else (Proceed,
                emit (EvLog Info ''existing ingress controller found, no need to install a new one'' []) s4))"

definition InitIngress ::
  "env \<Rightarrow> 'a InitOptions_scheme \<Rightarrow> error option \<times> 'a InitOptions_scheme" where
  "InitIngress env s =
     (case call_err env EvKubeClient s of
        (Some err, s1) \<Rightarrow> (Some err, s1)
      | (None, s1) \<Rightarrow>
          (let ingressNamespace = IngressNamespace (Flags s1) in
           case call_err env
                  (EvEnsureNamespaceCreated ingressNamespace [(''jenkins.io/kind'', ''ingress'')]) s1 of
             (Some err, s2) \<Rightarrow>
               (Some (Errorf (''Failed to ensure the ingress namespace %s is created: %s'' @ nl
                                @ ''Is this an RBAC issue on your cluster?'')
                        [ArgS ingressNamespace, ArgE err]), s2)
           | (None, s2) \<Rightarrow>
               if isOpenShiftProvider env (Provider (Flags s2)) then
                 (None, emit (EvLog Info ''Not installing ingress as using OpenShift which uses Route and its own mechanism of ingress'' []) s2)
               else
                 (case InitIngress_controller env ingressNamespace s2 of
                    (Return r, s5) \<Rightarrow> (r, s5)
                  | (Proceed, s5) \<Rightarrow> InitIngress_externalIP env ingressNamespace s5)))"

section \<open>init: Run\<close>

text \<open>The first statement of \<open>Run\<close>: tiller is not set up when it is not remote or not
  wanted.\<close>

definition Run_normalize :: "InitFlags \<Rightarrow> InitFlags" where
  "Run_normalize f =
     (if \<not> RemoteTiller f \<or> NoTiller f
      then f\<lparr>HelmClient := True, SkipTiller := True, GlobalTiller := False\<rparr>
      else f)"

text \<open>The steps of \<open>Run\<close> that are taken or not by a flag or by the provider.\<close>

definition Run_ValidateGit ::
  "env \<Rightarrow> 'a InitOptions_scheme \<Rightarrow> error option \<times> 'a InitOptions_scheme" where
  "Run_ValidateGit env s = (if \<not> NoGitValidate (Flags s) then ValidateGit env s else (None, s))"

definition Run_configureForICP :: "env \<Rightarrow> 'a InitOptions_scheme \<Rightarrow> 'a InitOptions_scheme" where
  "Run_configureForICP env s =
     (if Provider (Flags s) = cloud_ICP env then configureForICP env s else s)"

definition Run_initIKSIngress ::
  "env \<Rightarrow> 'a InitOptions_scheme \<Rightarrow> error option \<times> 'a InitOptions_scheme" where
  "Run_initIKSIngress env s =
     (if Provider (Flags s) = cloud_IKS env then initIKSIngress env s else (None, s))"

definition Run_configureOptionsForExternalDNS ::
  "env \<Rightarrow> 'a InitOptions_scheme \<Rightarrow> 'a InitOptions_scheme" where
  "Run_configureOptionsForExternalDNS env s =
     (if ExternalDNS (Flags s) then configureOptionsForExternalDNS env s else s)"

text \<open>\<open>log.Logger().Fatalf\<close> is recorded as a log event of level \<open>Fatal\<close>, followed by the
  \<open>return err\<close> of the source.\<close>

definition Run_InitIngress ::
  "env \<Rightarrow> 'a InitOptions_scheme \<Rightarrow> error option \<times> 'a InitOptions_scheme" where
  "Run_InitIngress env s =
     (if \<not> SkipIngress (Flags s) then
        (case InitIngress env s of
           (Some err, s1) \<Rightarrow>
             (Some err, emit (EvLog Fatal ''ingress init failed: %v'' [ArgE err]) s1)
         | (None, s1) \<Rightarrow> (None, s1))
      else (None, s))"

definition InitHelmConfig_of :: "InitFlags \<Rightarrow> InitHelmConfig" where
  "InitHelmConfig_of f =
     \<lparr> cfg_Namespace = Namespace f,
       cfg_OnlyHelmClient = HelmClient f,
       cfg_Helm3 = Helm3 f,
       cfg_SkipTiller = SkipTiller f,
       cfg_GlobalTiller = GlobalTiller f,
       cfg_TillerNamespace = TillerNamespace f,
       cfg_TillerRole = TillerClusterRole f \<rparr>"

text \<open>The provider is assigned before the error of \<open>GetCloudProvider\<close> is looked at.\<close>

definition Run_GetCloudProvider ::
  "env \<Rightarrow> 'a InitOptions_scheme \<Rightarrow> error option \<times> 'a InitOptions_scheme" where
  "Run_GetCloudProvider env s =
     (case call_string env (EvGetCloudProvider (Provider (Flags s))) s of
        ((provider, err), s1) \<Rightarrow> (err, s1\<lparr>Flags := (Flags s1)\<lparr>Provider := provider\<rparr>\<rparr>))"

text \<open>Lines 368 to 414: the options are checked, then helm, the build packs, external DNS
  and the ingress.\<close>

definition Run_install ::
  "env \<Rightarrow> 'a InitOptions_scheme \<Rightarrow> error option \<times> 'a InitOptions_scheme" where
  "Run_install env s =
     (case checkOptions env s of
        (Some err, s1) \<Rightarrow> (Some err, s1)
      | (None, s1) \<Rightarrow>
      case Retry 3 (2 * Second) (call_err env (EvInitHelm (InitHelmConfig_of (Flags s1)))) s1 of
        (Some err, s2) \<Rightarrow> (Some err, emit (EvLog Fatal ''helm init failed: %v'' [ArgE err]) s2)
      | (None, s2) \<Rightarrow>
      case call_err env EvInitBuildPacks s2 of
        (Some err, s3) \<Rightarrow>
          (Some err, emit (EvLog Fatal ''initialise build packs failed: %v'' [ArgE err]) s3)
      | (None, s3) \<Rightarrow> Run_InitIngress env (Run_configureOptionsForExternalDNS env s3))"

definition InitOptions_Run ::
  "env \<Rightarrow> 'a InitOptions_scheme \<Rightarrow> error option \<times> 'a InitOptions_scheme" where
  "InitOptions_Run env s0 =
     (case Run_GetCloudProvider env (s0\<lparr>Flags := Run_normalize (Flags s0)\<rparr>) of
        (Some err, s1) \<Rightarrow> (Some err, s1)
      | (None, s1) \<Rightarrow>
      case Run_ValidateGit env s1 of
        (Some err, s2) \<Rightarrow> (Some err, s2)
      | (None, s2) \<Rightarrow>
      case EnableClusterAdminRole env s2 of
        (Some err, s3) \<Rightarrow> (Some err, s3)
      | (None, s3) \<Rightarrow>
      case Run_initIKSIngress env (Run_configureForICP env s3) of
        (Some err, s4) \<Rightarrow> (Some err, s4)
      | (None, s4) \<Rightarrow> Run_install env s4)"

section \<open>context: Run and PickContext\<close>

text \<open>\<open>strings.Index\<close> of the Go library: the index of the first instance of \<open>substr\<close> in
  \<open>s\<close>, or -1.\<close>

fun strings_Index_from :: "int \<Rightarrow> string \<Rightarrow> string \<Rightarrow> int" where
  "strings_Index_from i [] substr = (if substr = [] then i else - 1)"
| "strings_Index_from i (c # cs) substr =
     (if prefix substr (c # cs) then i else strings_Index_from (i + 1) cs substr)"

definition strings_Index :: "string \<Rightarrow> string \<Rightarrow> int" where
  "strings_Index s substr = strings_Index_from 0 s substr"

text \<open>
  Modelled from the spec: \<open>util.StringArrayIndex\<close>, a helper of package util whose body is
  not part of the sources at hand. The specification (section 4.5) has the positional
  name exist in the candidate set: the helper gives the index of the first element equal to
  the value, or -1.
\<close>

fun StringArrayIndex_from :: "int \<Rightarrow> string list \<Rightarrow> string \<Rightarrow> int" where
  "StringArrayIndex_from i [] value = - 1"
| "StringArrayIndex_from i (x # xs) value =
     (if x = value then i else StringArrayIndex_from (i + 1) xs value)"

definition StringArrayIndex :: "string list \<Rightarrow> string \<Rightarrow> int" where
  "StringArrayIndex array value = StringArrayIndex_from 0 array value"

text \<open>The loop over \<open>config.Contexts\<close> and the sort: the names that are not empty, whose
  context is not nil and that contain the filter, in the order of \<open>sort.Strings\<close>.\<close>

definition contextNames :: "Config \<Rightarrow> string \<Rightarrow> string list" where
  "contextNames config flt =
     sort (map fst (filter (\<lambda>(k, v). k \<noteq> '''' \<and> v \<noteq> None
                                    \<and> (flt = '''' \<or> strings_Index k flt \<ge> 0))
                      (Contexts config)))"

text \<open>\<open>config.Contexts[ctxName]\<close>: nil when the map has no such key.\<close>

definition Contexts_at :: "Config \<Rightarrow> string \<Rightarrow> Context option" where
  "Contexts_at config name =
     (case map_of (Contexts config) name of None \<Rightarrow> None | Some v \<Rightarrow> v)"

definition PickContext ::
  "env \<Rightarrow> string list \<Rightarrow> string \<Rightarrow> 'a world_scheme
     \<Rightarrow> (string \<times> error option) \<times> 'a world_scheme" where
  "PickContext env names defaultValue s =
     (if length names = 0 then (('''', None), s)
      else if length names = 1 then ((hd names, None), s)
      else call_string env (EvSurveySelect ''Change kubernetes context:'' names defaultValue) s)"

text \<open>Lines 90 to 97: the name given as the first argument must be one of the names.\<close>

definition ContextOptions_Run_arg :: "string list \<Rightarrow> string list \<Rightarrow> error + string" where
  "ContextOptions_Run_arg names args =
     (if length args > 0 then
        (if StringArrayIndex names (hd args) < 0
         then Inl (InvalidArg (hd args) names)
         else Inr (hd args))
      else Inr '''')"

text \<open>Lines 90 to 106: the name given as the first argument, or picked.\<close>

definition ContextOptions_Run_resolve ::
  "env \<Rightarrow> Config \<Rightarrow> string list \<Rightarrow> 'a ContextOptions_scheme
     \<Rightarrow> (error + string) \<times> 'a ContextOptions_scheme" where
  "ContextOptions_Run_resolve env config names s =
     (case ContextOptions_Run_arg names (Args s) of
        Inl err \<Rightarrow> (Inl err, s)
      | Inr ctxName \<Rightarrow>
          if ctxName = '''' \<and> \<not> BatchMode s then
            (case PickContext env names (CurrentContext config) s of
               ((pick, Some err), s1) \<Rightarrow> (Inl err, s1)
             | ((pick, None), s1) \<Rightarrow> (Inr pick, s1))
          else (Inr ctxName, s))"

text \<open>Lines 107 to 125: the switch, or the report of the current context.\<close>

definition ContextOptions_Run_switch ::
  "env \<Rightarrow> Config \<Rightarrow> string \<Rightarrow> 'a ContextOptions_scheme
     \<Rightarrow> error option \<times> 'a ContextOptions_scheme" where
  "ContextOptions_Run_switch env config ctxName s =
     (if ctxName \<noteq> '''' \<and> ctxName \<noteq> CurrentContext config then
        (case Contexts_at config ctxName of
           None \<Rightarrow> (Some (Errorf ''Could not find kubernetes context %s'' [ArgS ctxName]), s)
         | Some ctx \<Rightarrow>
             (let newConfig = config\<lparr>CurrentContext := ctxName\<rparr> in
              case ModifyConfig env newConfig s of
                (Some err, s1) \<Rightarrow> (Some (Errorf ''Failed to update the kube config %s'' [ArgE err]), s1)
              | (None, s1) \<Rightarrow>
                  (None,
                   emit (EvPrintf (''Now using namespace '%s' from context named '%s' on server '%s'.'' @ nl)
                           [Context_Namespace ctx, CurrentContext newConfig, kube_Server env config ctx])
                     s1)))
      else
        (let ns = kube_CurrentNamespace env config;
             server = kube_CurrentServer env config
         in (None,
             emit (EvPrintf (''Using namespace '%s' from context named '%s' on server '%s'.'' @ nl)
                     [ns, CurrentContext config, server]) s)))"

definition ContextOptions_Run ::
  "env \<Rightarrow> 'a ContextOptions_scheme \<Rightarrow> error option \<times> 'a ContextOptions_scheme" where
  "ContextOptions_Run env s =
     (case LoadConfig env s of
        ((config0, Some err), s1) \<Rightarrow> (Some err, s1)
      | ((None, None), s1) \<Rightarrow>
          (Some (Errorf ''No kubernetes contexts available! Try create or connect to cluster?'' []), s1)
      | ((Some config, None), s1) \<Rightarrow>
          if length (Contexts config) = 0 then
            (Some (Errorf ''No kubernetes contexts available! Try create or connect to cluster?'' []), s1)
          else
            (let names = contextNames config (Filter s1) in
             case ContextOptions_Run_resolve env config names s1 of
               (Inl err, s2) \<Rightarrow> (Some err, s2)
             | (Inr ctxName, s2) \<Rightarrow> ContextOptions_Run_switch env config ctxName s2))"

section \<open>Kinds of events\<close>

text \<open>The work of the ingress provisioner after the namespace: detection, the install
  path, the waits and the domain resolution.\<close>

definition is_ingress_work :: "event \<Rightarrow> bool" where
  "is_ingress_work e =
     (case e of
        EvDeploymentPodCount _ _ \<Rightarrow> True
      | EvSurveyConfirm _ _ \<Rightarrow> True
      | EvAppendMyValues _ \<Rightarrow> True
      | EvTempFile _ _ \<Rightarrow> True
      | EvWriteFile _ _ \<Rightarrow> True
      | EvGetVersionNumber _ _ _ \<Rightarrow> True
      | EvHelmBinary \<Rightarrow> True
      | EvInstallChartWithOptions _ \<Rightarrow> True
      | EvSleep _ \<Rightarrow> True
      | EvWaitForDeploymentToBeReady _ _ _ \<Rightarrow> True
      | EvLoadConfig \<Rightarrow> True
      | EvWaitForExternalIP _ _ _ \<Rightarrow> True
      | EvGetDomain _ _ _ _ _ \<Rightarrow> True
      | _ \<Rightarrow> False)"

definition is_WaitForExternalIP :: "event \<Rightarrow> bool" where
  "is_WaitForExternalIP e = (case e of EvWaitForExternalIP _ _ _ \<Rightarrow> True | _ \<Rightarrow> False)"

text \<open>The events of the install loop for the chart options \<open>ho\<close>.\<close>

definition loop_event :: "InstallChartOptions \<Rightarrow> event \<Rightarrow> bool" where
  "loop_event ho e \<longleftrightarrow>
     e = EvHelmBinary \<or> (\<exists>b. e = EvLog Debug ''Installing using helm binary: %s'' [ArgS b])
     \<or> e = EvInstallChartWithOptions ho \<or> e = EvSleep Second
     \<or> (\<exists>err. e = EvLog Error ''Failed to install ingress chart: %s'' [ArgE err])"

text \<open>The flags on which \<open>checkOptions\<close> has nothing left to do.\<close>

definition settled :: "InitFlags \<Rightarrow> bool" where
  "settled f \<longleftrightarrow> (Helm3 f \<longrightarrow> SkipTiller f \<and> NoTiller f) \<and>
     (SkipTiller f \<or> (GlobalTiller f \<and> TillerNamespace f \<noteq> []) \<or> (\<not> GlobalTiller f \<and> Namespace f \<noteq> []))"

section \<open>Concrete runs\<close>

text \<open>
  A world in which every call succeeds, with the provider names and the default ingress
  service name of the upstream packages: the cloud provider asked for is found, git is
  configured, no ingress controller is deployed, and the domain is the external IP under
  nip.io. Then the options of a batch run.
\<close>

definition sample_string :: "event list \<Rightarrow> string \<times> error option" where
  "sample_string h =
     (case last h of
        EvGetCloudProvider p \<Rightarrow> (p, None)
      | EvGitUsername \<Rightarrow> (''jx'', None)
      | EvGitEmail \<Rightarrow> (''jx@example.com'', None)
      | EvKubeClientAndNamespace \<Rightarrow> (''jx'', None)
      | EvGetVersionNumber _ _ _ \<Rightarrow> (''1.3.7'', None)
      | EvHelmBinary \<Rightarrow> (''helm'', None)
      | EvGetDomain _ _ _ _ ip \<Rightarrow> (ip @ ''.nip.io'', None)
      | _ \<Rightarrow> ('''', None))"

definition sample_env :: env where
  "sample_env = \<lparr>
     reply_err = (\<lambda>h. None),
     reply_string = sample_string,
     reply_strings = (\<lambda>h. ([], None)),
     reply_int = (\<lambda>h. (0, None)),
     reply_bool = (\<lambda>h. (True, None)),
     cloud_OPENSHIFT = ''openshift'',
     cloud_ALIBABA = ''alibaba'',
     cloud_AWS = ''aws'',
     cloud_EKS = ''eks'',
     cloud_OKE = ''oke'',
     cloud_GKE = ''gke'',
     cloud_ICP = ''icp'',
     cloud_IKS = ''iks'',
     DefaultIngressServiceName = ''jxing-nginx-ingress-controller'',
     naming_ToValidName = (\<lambda>x. x),
     strings_ToLower = (\<lambda>x. x),
     util_UrlHostNameWithoutPort = (\<lambda>x. (x, None)),
     kube_Server = (\<lambda>c x. Context_Cluster x),
     kube_CurrentNamespace = (\<lambda>c. ''default''),
     kube_CurrentServer = (\<lambda>c. '''') \<rparr>"

definition sample_flags :: InitFlags where
  "sample_flags = \<lparr>
     Domain = '''', Provider = ''gke'', Namespace = ''jx'', UserClusterRole = ''cluster-admin'',
     TillerClusterRole = ''cluster-admin'', IngressClusterRole = ''cluster-admin'',
     TillerNamespace = ''kube-system'', IngressNamespace = ''kube-system'',
     IngressService = ''jxing-nginx-ingress-controller'',
     IngressDeployment = ''jxing-nginx-ingress-controller'',
     ExternalIP = '''', VersionsRepository = '''', VersionsGitRef = '''',
     DraftClient = False, HelmClient = False, Helm3 = False, HelmBin = '''',
     RecreateExistingDraftRepos = False, NoTiller = True, RemoteTiller = True,
     GlobalTiller = True, SkipIngress = False, SkipTiller = False, SkipClusterRole = False,
     OnPremise = False, Http = False, NoGitValidate = False, ExternalDNS = False \<rparr>"

definition sample_init :: "InitFlags \<Rightarrow> InitOptions" where
  "sample_init f = \<lparr> trace = [], kubeconfig = None, Args = [], BatchMode = True,
     AdvancedMode = False, Username = ''admin'', CommonDomain = '''', Flags = f \<rparr>"

text \<open>Flags asking for a remote, global tiller with no tiller namespace; and the same with
  helm3.\<close>

definition global_tiller_flags :: InitFlags where
  "global_tiller_flags =
     sample_flags\<lparr>RemoteTiller := True, NoTiller := False, SkipTiller := False,
                  GlobalTiller := True, TillerNamespace := ''''\<rparr>"

definition helm3_flags :: InitFlags where
  "helm3_flags = global_tiller_flags\<lparr>Helm3 := True\<rparr>"

text \<open>Flags for OpenShift; flags with an external IP; a world with an ingress controller
  deployed.\<close>

definition openshift_flags :: InitFlags where
  "openshift_flags = sample_flags\<lparr>Provider := ''openshift''\<rparr>"



section \<open>Properties of the calls\<close>

lemma fst_call_err [simp]: "fst (call_err env ev s) = reply_err env (trace s @ [ev])"
  by (simp add: call_err_def)

lemma snd_call_err [simp]: "snd (call_err env ev s) = emit ev s"
  by (simp add: call_err_def)

lemma fst_call_string [simp]: "fst (call_string env ev s) = reply_string env (trace s @ [ev])"
  by (simp add: call_string_def)

lemma snd_call_string [simp]: "snd (call_string env ev s) = emit ev s"
  by (simp add: call_string_def)

lemma fst_call_strings [simp]: "fst (call_strings env ev s) = reply_strings env (trace s @ [ev])"
  by (simp add: call_strings_def)

lemma snd_call_strings [simp]: "snd (call_strings env ev s) = emit ev s"
  by (simp add: call_strings_def)

lemma fst_call_int [simp]: "fst (call_int env ev s) = reply_int env (trace s @ [ev])"
  by (simp add: call_int_def)

lemma snd_call_int [simp]: "snd (call_int env ev s) = emit ev s"
  by (simp add: call_int_def)

lemma fst_call_bool [simp]: "fst (call_bool env ev s) = reply_bool env (trace s @ [ev])"
  by (simp add: call_bool_def)

lemma snd_call_bool [simp]: "snd (call_bool env ev s) = emit ev s"
  by (simp add: call_bool_def)

lemma trace_emit [simp]: "trace (emit ev s) = trace s @ [ev]"
  by (simp add: emit_def)

lemma kubeconfig_emit [simp]: "kubeconfig (emit ev s) = kubeconfig s"
  by (simp add: emit_def)

lemma Args_emit [simp]: "Args (emit ev s) = Args s"
  by (simp add: emit_def)

lemma BatchMode_emit [simp]: "BatchMode (emit ev s) = BatchMode s"
  by (simp add: emit_def)

lemma AdvancedMode_emit [simp]: "AdvancedMode (emit ev s) = AdvancedMode s"
  by (simp add: emit_def)

lemma Username_emit [simp]: "Username (emit ev s) = Username s"
  by (simp add: emit_def)

lemma CommonDomain_emit [simp]: "CommonDomain (emit ev s) = CommonDomain s"
  by (simp add: emit_def)

lemma Filter_emit [simp]: "Filter (emit ev s) = Filter s"
  by (simp add: emit_def)

lemma Flags_emit [simp]: "Flags (emit ev s) = Flags s"
  by (simp add: emit_def)

section \<open>Properties of checkOptions\<close>

lemma Flags_checkOptions_ingress: "Flags (checkOptions_ingress s) = Flags s"
  by (simp add: checkOptions_ingress_def emit_def)

lemma checkOptions_settles:
  "fst (checkOptions env s) = None \<Longrightarrow> settled (Flags (snd (checkOptions env s)))"
  apply (simp only: checkOptions_def Let_def settled_def)
  apply (simp add: checkOptions_helm3_def Flags_checkOptions_ingress call_string_def emit_def
       split: if_splits prod.splits option.splits)
  done

lemma checkOptions_settled:
  "settled (Flags s) \<Longrightarrow>
     fst (checkOptions env s) = None \<and> Flags (snd (checkOptions env s)) = Flags s"
  by (auto simp add: checkOptions_def Let_def settled_def checkOptions_helm3_def
        Flags_checkOptions_ingress)

lemma checkOptions_helm3_succeeds:
  "Helm3 (Flags s) \<Longrightarrow> fst (checkOptions env s) = None"
  by (simp add: checkOptions_def Let_def checkOptions_helm3_def)

text \<open>
  Claim C4. When the helm3 flag is set, \<open>checkOptions\<close> succeeds and leaves the flags as they
  were except that \<open>SkipTiller\<close> and \<open>NoTiller\<close> are true, whatever they were before. The
  helm3 block is idempotent on every flag state, and a second \<open>checkOptions\<close> (in any world)
  succeeds again and leaves the flags of the first unchanged.
\<close>

theorem checkOptions_helm3_forces_idempotent:
  assumes "Helm3 (Flags s)"
  shows "fst (checkOptions env s) = None
     \<and> Flags (snd (checkOptions env s)) = (Flags s)\<lparr>SkipTiller := True, NoTiller := True\<rparr>
     \<and> SkipTiller (Flags (snd (checkOptions env s)))
     \<and> NoTiller (Flags (snd (checkOptions env s)))
     \<and> checkOptions_helm3 (checkOptions_helm3 f) = checkOptions_helm3 f
     \<and> fst (checkOptions env2 (snd (checkOptions env s))) = None
     \<and> Flags (snd (checkOptions env2 (snd (checkOptions env s)))) = Flags (snd (checkOptions env s))"
proof -
  have ok: "fst (checkOptions env s) = None"
    using assms by (rule checkOptions_helm3_succeeds)
  have fl: "Flags (snd (checkOptions env s)) = (Flags s)\<lparr>SkipTiller := True, NoTiller := True\<rparr>"
    using assms
    by (simp add: checkOptions_def Let_def checkOptions_helm3_def Flags_checkOptions_ingress)
  have again: "fst (checkOptions env2 (snd (checkOptions env s))) = None
       \<and> Flags (snd (checkOptions env2 (snd (checkOptions env s)))) = Flags (snd (checkOptions env s))"
    using checkOptions_settled [OF checkOptions_settles [OF ok]] .
  have blk: "checkOptions_helm3 (checkOptions_helm3 f) = checkOptions_helm3 f"
    by (simp add: checkOptions_helm3_def)
  show ?thesis using ok fl again blk by simp
qed

theorem checkOptions_helm3_forces_idempotent_witness:
  "Helm3 (Flags (sample_init helm3_flags))
   \<and> \<not> SkipTiller (Flags (sample_init helm3_flags))
   \<and> \<not> NoTiller (Flags (sample_init helm3_flags))
   \<and> fst (checkOptions sample_env (sample_init helm3_flags)) = None
   \<and> SkipTiller (Flags (snd (checkOptions sample_env (sample_init helm3_flags))))
   \<and> NoTiller (Flags (snd (checkOptions sample_env (sample_init helm3_flags))))
   \<and> Flags (snd (checkOptions sample_env (snd (checkOptions sample_env (sample_init helm3_flags)))))
       = Flags (snd (checkOptions sample_env (sample_init helm3_flags)))"
  using checkOptions_helm3_forces_idempotent [of "sample_init helm3_flags" sample_env helm3_flags sample_env]
  by (simp add: sample_init_def helm3_flags_def global_tiller_flags_def sample_flags_def)

text \<open>
  Claim C5, as stated, fails when helm3 is set: with \<open>SkipTiller\<close> false, \<open>GlobalTiller\<close> true
  and an empty tiller namespace, the helm3 block sets \<open>SkipTiller\<close> first and \<open>checkOptions\<close>
  succeeds.
\<close>

theorem checkOptions_global_tiller_helm3_counterexample:
  "\<not> SkipTiller (Flags (sample_init helm3_flags))
   \<and> GlobalTiller (Flags (sample_init helm3_flags))
   \<and> TillerNamespace (Flags (sample_init helm3_flags)) = ''''
   \<and> fst (checkOptions sample_env (sample_init helm3_flags)) = None"
  by (simp add: sample_init_def helm3_flags_def global_tiller_flags_def sample_flags_def
        checkOptions_def checkOptions_helm3_def Let_def checkOptions_ingress_def)

text \<open>
  Claim C5, amended. When helm3 is not set, \<open>SkipTiller\<close> is false, \<open>GlobalTiller\<close> is true and
  the tiller namespace is empty, \<open>checkOptions\<close> returns the missing-option error for
  \<open>tiller-namespace\<close> and does nothing else: no call is made, nothing is logged and no flag
  changes.
\<close>

theorem checkOptions_global_tiller_missing_namespace:
  assumes "\<not> Helm3 (Flags s)" and "\<not> SkipTiller (Flags s)" and "GlobalTiller (Flags s)"
    and "TillerNamespace (Flags s) = ''''"
  shows "checkOptions env s = (Some (MissingOption ''tiller-namespace''), s)"
  using assms
  by (simp add: checkOptions_def checkOptions_helm3_def Let_def optionTillerNamespace_def)

theorem checkOptions_global_tiller_missing_namespace_witness:
  "\<not> Helm3 (Flags (sample_init global_tiller_flags))
   \<and> \<not> SkipTiller (Flags (sample_init global_tiller_flags))
   \<and> GlobalTiller (Flags (sample_init global_tiller_flags))
   \<and> TillerNamespace (Flags (sample_init global_tiller_flags)) = ''''
   \<and> checkOptions sample_env (sample_init global_tiller_flags)
       = (Some (MissingOption ''tiller-namespace''), sample_init global_tiller_flags)"
  using checkOptions_global_tiller_missing_namespace [of "sample_init global_tiller_flags" sample_env]
  by (simp add: sample_init_def global_tiller_flags_def sample_flags_def)

section \<open>Properties of InitIngress\<close>

lemma installLoop_unfold:
  "InitIngress_installLoop env ho i s =
     (let s2 = emit (EvInstallChartWithOptions ho)
                 (emit (EvLog Debug ''Installing using helm binary: %s''
                          [ArgS (fst (reply_string env (trace s @ [EvHelmBinary])))])
                    (emit EvHelmBinary s))
      in case reply_err env (trace s2) of
           None \<Rightarrow> s2
         | Some err \<Rightarrow>
             if 3 \<le> i then emit (EvLog Error ''Failed to install ingress chart: %s'' [ArgE err]) s2
             else InitIngress_installLoop env ho (i + 1) (emit (EvSleep Second) s2))"
  by (subst InitIngress_installLoop.simps) (simp add: split_beta Let_def split: option.split)




lemma installLoop_induct:
  assumes step: "\<And>i s. (\<And>s'. \<not> 3 \<le> i \<Longrightarrow> P (i + 1) s') \<Longrightarrow> P i s"
  shows "P (i::int) s"
proof (induction "nat (3 - i)" arbitrary: i s)
  case 0
  then have le: "3 \<le> i" by simp
  show ?case by (rule step) (simp add: le)
next
  case (Suc n)
  show ?case
  proof (rule step)
    fix s'
    assume "\<not> 3 \<le> i"
    with Suc.hyps(2) have "n = nat (3 - (i + 1))" by simp
    then show "P (i + 1) s'" by (rule Suc.hyps(1))
  qed
qed

lemma installLoop_invariant:
  assumes "Q s" and step: "\<And>b ev. Q b \<Longrightarrow> loop_event ho ev \<Longrightarrow> Q (emit ev b)"
  shows "Q (InitIngress_installLoop env ho i s)"
  using assms(1)
proof (induction i s rule: installLoop_induct)
  case (1 i s)
  define s2 where "s2 = emit (EvInstallChartWithOptions ho)
                 (emit (EvLog Debug ''Installing using helm binary: %s''
                          [ArgS (fst (reply_string env (trace s @ [EvHelmBinary])))])
                    (emit EvHelmBinary s))"
  have Q2: "Q s2"
    unfolding s2_def using "1.prems" by (intro step) (simp_all add: loop_event_def)
  have Q3: "Q (emit (EvSleep Second) s2)"
    using Q2 by (rule step) (simp add: loop_event_def)
  have Q4: "Q (emit (EvLog Error ''Failed to install ingress chart: %s'' [ArgE err]) s2)" for err
    using Q2 by (rule step) (simp add: loop_event_def)
  have unf: "InitIngress_installLoop env ho i s =
      (case reply_err env (trace s2) of
           None \<Rightarrow> s2
         | Some err \<Rightarrow>
             if 3 \<le> i then emit (EvLog Error ''Failed to install ingress chart: %s'' [ArgE err]) s2
             else InitIngress_installLoop env ho (i + 1) (emit (EvSleep Second) s2))"
    unfolding s2_def by (subst installLoop_unfold) (simp add: Let_def)
  show ?case
    unfolding unf using Q2 Q4 "1.IH" [OF _ Q3] by (simp split: option.split)
qed





lemma Flags_installLoop [simp]: "Flags (InitIngress_installLoop env ho i s) = Flags s"
  by (rule installLoop_invariant [where Q = "\<lambda>b. Flags b = Flags s"]) simp_all

lemma Flags_installChart [simp]: "Flags (snd (InitIngress_installChart env ho ns s)) = Flags s"
  by (simp add: InitIngress_installChart_def Let_def split_beta split: option.split)

lemma Flags_confirm [simp]: "Flags (snd (InitIngress_confirm env ns s)) = Flags s"
  by (simp add: InitIngress_confirm_def)

lemma Flags_valuesFile [simp]: "Flags (snd (InitIngress_valuesFile env vf s)) = Flags s"
  by (simp add: InitIngress_valuesFile_def split_beta split: option.split)

lemma Flags_install [simp]: "Flags (snd (InitIngress_install env ns s)) = Flags s"
  by (simp add: InitIngress_install_def Let_def split_beta split: option.split sum.split)




lemma noWait_emit [simp]:
  "\<not> is_WaitForExternalIP ev \<Longrightarrow>
     filter is_WaitForExternalIP (trace s @ evs @ [ev]) = filter is_WaitForExternalIP (trace s @ evs)"
  by simp

lemma noWait_installLoop [simp]:
  "filter is_WaitForExternalIP (trace (InitIngress_installLoop env ho i s))
     = filter is_WaitForExternalIP (trace s)"
  by (rule installLoop_invariant
        [where Q = "\<lambda>b. filter is_WaitForExternalIP (trace b) = filter is_WaitForExternalIP (trace s)"])
     (auto simp add: loop_event_def is_WaitForExternalIP_def)

lemma noWait_installChart [simp]:
  "filter is_WaitForExternalIP (trace (snd (InitIngress_installChart env ho ns s)))
     = filter is_WaitForExternalIP (trace s)"
  by (simp add: InitIngress_installChart_def Let_def split_beta is_WaitForExternalIP_def
        split: option.split)

lemma noWait_confirm [simp]:
  "filter is_WaitForExternalIP (trace (snd (InitIngress_confirm env ns s)))
     = filter is_WaitForExternalIP (trace s)"
  by (simp add: InitIngress_confirm_def is_WaitForExternalIP_def)

lemma noWait_valuesFile [simp]:
  "filter is_WaitForExternalIP (trace (snd (InitIngress_valuesFile env vf s)))
     = filter is_WaitForExternalIP (trace s)"
  by (simp add: InitIngress_valuesFile_def split_beta is_WaitForExternalIP_def split: option.split)

lemma noWait_install [simp]:
  "filter is_WaitForExternalIP (trace (snd (InitIngress_install env ns s)))
     = filter is_WaitForExternalIP (trace s)"
  by (simp add: InitIngress_install_def Let_def split_beta is_WaitForExternalIP_def
        split: option.split sum.split)

lemma trace_alibaba [simp]: "trace (InitIngress_alibaba env s) = trace s"
  by (simp add: InitIngress_alibaba_def Let_def)

lemma ExternalIP_alibaba [simp]:
  "ExternalIP (Flags (InitIngress_alibaba env s)) = ExternalIP (Flags s)"
  by (simp add: InitIngress_alibaba_def Let_def)

lemma Provider_alibaba [simp]:
  "Provider (Flags (InitIngress_alibaba env s)) = Provider (Flags s)"
  by (simp add: InitIngress_alibaba_def Let_def)

lemma noWait_controller [simp]:
  "filter is_WaitForExternalIP (trace (snd (InitIngress_controller env ns s)))
     = filter is_WaitForExternalIP (trace s)"
  by (simp add: InitIngress_controller_def Let_def split_beta is_WaitForExternalIP_def)






lemma noWait_notes [simp]:
  "filter is_WaitForExternalIP (trace (InitIngress_notes env ns s))
     = filter is_WaitForExternalIP (trace s)"
  by (simp add: InitIngress_notes_def Let_def is_WaitForExternalIP_def)

lemma Flags_notes [simp]: "Flags (InitIngress_notes env ns s) = Flags s"
  by (simp add: InitIngress_notes_def Let_def)










text \<open>
  Claim C6. For the OpenShift provider \<open>InitIngress\<close> asks for the client, ensures the ingress
  namespace and returns: nil with one log line when the namespace is ensured, the error
  otherwise. Whatever the world answers (so also with a pod count of zero), none of the
  detection, install, wait and domain calls is made.
\<close>

theorem InitIngress_openshift_short_circuit:
  assumes "Provider (Flags s) = cloud_OPENSHIFT env"
  shows "InitIngress env s =
     (case reply_err env (trace s @ [EvKubeClient]) of
        Some err \<Rightarrow> (Some err, emit EvKubeClient s)
      | None \<Rightarrow>
         (case reply_err env (trace s @ [EvKubeClient,
                  EvEnsureNamespaceCreated (IngressNamespace (Flags s)) [(''jenkins.io/kind'', ''ingress'')]]) of
            Some err \<Rightarrow>
              (Some (Errorf (''Failed to ensure the ingress namespace %s is created: %s'' @ nl
                                @ ''Is this an RBAC issue on your cluster?'')
                        [ArgS (IngressNamespace (Flags s)), ArgE err]),
               emit (EvEnsureNamespaceCreated (IngressNamespace (Flags s)) [(''jenkins.io/kind'', ''ingress'')])
                 (emit EvKubeClient s))
          | None \<Rightarrow>
              (None,
               emit (EvLog Info ''Not installing ingress as using OpenShift which uses Route and its own mechanism of ingress'' [])
                 (emit (EvEnsureNamespaceCreated (IngressNamespace (Flags s)) [(''jenkins.io/kind'', ''ingress'')])
                    (emit EvKubeClient s)))))
     \<and> filter is_ingress_work (trace (snd (InitIngress env s))) = filter is_ingress_work (trace s)"
  using assms
  by (simp add: InitIngress_def isOpenShiftProvider_def Let_def split_beta is_ingress_work_def
      split: option.split)

theorem InitIngress_openshift_short_circuit_witness:
  "Provider (Flags (sample_init openshift_flags)) = cloud_OPENSHIFT sample_env
   \<and> fst (reply_int sample_env [EvDeploymentPodCount ''jxing-nginx-ingress-controller'' ''kube-system'']) = 0
   \<and> fst (InitIngress sample_env (sample_init openshift_flags)) = None
   \<and> trace (snd (InitIngress sample_env (sample_init openshift_flags))) =
       [EvKubeClient,
        EvEnsureNamespaceCreated ''kube-system'' [(''jenkins.io/kind'', ''ingress'')],
        EvLog Info ''Not installing ingress as using OpenShift which uses Route and its own mechanism of ingress'' []]"
  using InitIngress_openshift_short_circuit [of "sample_init openshift_flags" sample_env]
  by (simp add: sample_init_def openshift_flags_def sample_flags_def sample_env_def)




end
